theory Spec2Isabelle
  imports Complex_Main
begin

section \<open>Geometry values of Mobject.js\<close>

text \<open>
  A point is one element of the \<open>points\<close> array: \<open>points[k][0]\<close> and \<open>points[k][1]\<close>.
  The code never computes with coordinates itself, it only hands them to the scene-graph
  library and to the helpers of \<open>utils\<close>.
\<close>

type_synonym point = "real \<times> real"

text \<open>A cubic Bezier curve as \<open>bezierCurveTo\<close> stores it: start, two controls, end.\<close>

type_synonym curve = "point \<times> point \<times> point \<times> point"

text \<open>
  \<open>THREE.Path\<close>: the list of curves and the current point. \<open>THREE.Shape\<close> extends it
  with the list of holes.
\<close>

record path =
  curves :: "curve list"
  currentPoint :: point

record shape = path +
  holes :: "path list"

text \<open>
  The only exception these functions raise themselves is the \<open>TypeError\<close> of reading a
  coordinate of \<open>undefined\<close>. \<open>InvalidGeometryInput\<close> is the condition the
  specification names; no statement of Mobject.js raises it.
\<close>

datatype error = TypeError | InvalidGeometryInput

text \<open>
  What \<open>computeShapes\<close> calls and Mobject.js does not define: \<open>utils.allClose\<close>,
  \<open>utils.isPointInsidePolygon\<close>, and the two sampling methods of \<open>THREE.Path\<close>
  (\<open>getPoint(0)\<close> and \<open>getPoints()\<close>). They are parameters of the model.
\<close>

record externals =
  allClose :: "point \<Rightarrow> point \<Rightarrow> bool"
  isPointInsidePolygon :: "point \<Rightarrow> point list \<Rightarrow> bool"
  getPoint0 :: "path \<Rightarrow> point"
  getPoints :: "path \<Rightarrow> point list"

section \<open>Path building: the first loop of computeShapes\<close>

text \<open>\<open>new THREE.Path()\<close>, \<open>moveTo\<close> and \<open>bezierCurveTo\<close>.\<close>

definition new_Path :: path where
  "new_Path = \<lparr>curves = [], currentPoint = (0, 0)\<rparr>"

definition moveTo :: "point \<Rightarrow> path \<Rightarrow> path" where
  "moveTo p pa = pa\<lparr>currentPoint := p\<rparr>"

definition bezierCurveTo :: "point \<Rightarrow> point \<Rightarrow> point \<Rightarrow> path \<Rightarrow> path" where
  "bezierCurveTo c1 c2 e pa =
     pa\<lparr>curves := curves pa @ [(currentPoint pa, c1, c2, e)], currentPoint := e\<rparr>"

text \<open>\<open>points[k]\<close>: an array read past the end gives \<open>undefined\<close> (here \<open>None\<close>).\<close>

definition element :: "'a list \<Rightarrow> nat \<Rightarrow> 'a option" where
  "element xs k = (if k < length xs then Some (xs ! k) else None)"

text \<open>
  One pass of the loop body at index \<open>i\<close>. The loop variables are \<open>path\<close> (\<open>None\<close> while
  it is still \<open>undefined\<close>), \<open>move\<close> and \<open>paths\<close>. Reading \<open>[0]\<close> of an absent point, or
  calling \<open>bezierCurveTo\<close> on an undefined path, raises \<open>TypeError\<close>. When the last
  point of the segment was read and \<open>curveStartIndex + 4\<close> is not \<open>points.length\<close>,
  index \<open>curveStartIndex + 4\<close> is in range.
\<close>

fun loop_body ::
  "externals \<Rightarrow> point list \<Rightarrow> nat \<Rightarrow> path option \<times> bool \<times> path list
     \<Rightarrow> error + (path option \<times> bool \<times> path list)" where
  "loop_body U points i (path, move, paths) =
       (let curveStartIndex = 4 * i in
        case (if move
              then (case element points curveStartIndex of
                      None \<Rightarrow> Inl TypeError
                    | Some p \<Rightarrow> Inr (Some (moveTo p new_Path)))
              else Inr path) of
          Inl e \<Rightarrow> Inl e
        | Inr path1 \<Rightarrow>
            (case (path1, element points (curveStartIndex + 1),
                   element points (curveStartIndex + 2),
                   element points (curveStartIndex + 3)) of
               (Some pa, Some p1, Some p2, Some p3) \<Rightarrow>
                 let path2 = bezierCurveTo p1 p2 p3 pa;
                     move1 = (curveStartIndex + 4 = length points);
                     move2 = (if \<not> move1
                              then \<not> allClose U p3 (points ! (curveStartIndex + 4))
                              else move1)
                 in Inr (Some path2, move2, if move2 then paths @ [path2] else paths)
             | _ \<Rightarrow> Inl TypeError))"

text \<open>
  The loop \<open>for (let i = 0; i < points.length / 4; i++)\<close>: the division is a
  floating-point one, so the test is \<open>4 * i < points.length\<close>.
\<close>

function buildPaths_from ::
  "externals \<Rightarrow> point list \<Rightarrow> nat \<Rightarrow> path option \<times> bool \<times> path list \<Rightarrow> error + path list" where
  "buildPaths_from U points i st =
     (if 4 * i < length points
      then (case loop_body U points i st of
              Inl e \<Rightarrow> Inl e
            | Inr st' \<Rightarrow> buildPaths_from U points (Suc i) st')
      else Inr (snd (snd st)))"
  by pat_completeness auto
termination
  by (relation "measure (\<lambda>(U, points, i, st). length points - 4 * i)") auto

declare buildPaths_from.simps [simp del]

definition buildPaths :: "externals \<Rightarrow> point list \<Rightarrow> error + path list" where
  "buildPaths U points = buildPaths_from U points 0 (None, True, [])"


section \<open>Shape classification: the second half of computeShapes\<close>

text \<open>
  \<open>utils.isPointInsidePolygon(test_hole.getPoint(0), test_shape.getPoints())\<close>.
\<close>

definition shapeContainsHole :: "externals \<Rightarrow> path \<Rightarrow> path \<Rightarrow> bool" where
  "shapeContainsHole U test_shape test_hole =
     isPointInsidePolygon U (getPoint0 U test_hole) (getPoints U test_shape)"

definition new_Shape :: shape where
  "new_Shape = \<lparr>curves = [], currentPoint = (0, 0), holes = []\<rparr>"

text \<open>
  The body of the inner loop over \<open>j\<close>, for the outer index \<open>i\<close>. Its variables are
  \<open>known_shape\<close> (\<open>None\<close> for \<open>null\<close>) and the set \<open>decided_path_indices\<close>.
\<close>

fun inner_body ::
  "externals \<Rightarrow> path list \<Rightarrow> nat \<Rightarrow> nat \<Rightarrow> shape option \<times> nat set \<Rightarrow> shape option \<times> nat set" where
  "inner_body U paths i j (known_shape, decided_path_indices) =
     (if i = j \<or> j \<in> decided_path_indices then (known_shape, decided_path_indices)
      else
        let test_shape = paths ! i; test_hole = paths ! j in
        if shapeContainsHole U test_shape test_hole
        then (case known_shape of
                None \<Rightarrow>
                  (Some (new_Shape\<lparr>curves := curves new_Shape @ curves test_shape,
                                   holes := holes new_Shape @ [test_hole]\<rparr>),
                   insert j (insert i decided_path_indices))
              | Some shape \<Rightarrow>
                  (Some (shape\<lparr>holes := holes shape @ [test_hole]\<rparr>),
                   insert j decided_path_indices))
        else (known_shape, decided_path_indices))"

text \<open>The body of the outer loop over \<open>i\<close>; its variables are \<open>shapes\<close> and the set.\<close>

fun outer_body ::
  "externals \<Rightarrow> path list \<Rightarrow> nat \<Rightarrow> shape list \<times> nat set \<Rightarrow> shape list \<times> nat set" where
  "outer_body U paths i (shapes, decided_path_indices) =
     (if i \<in> decided_path_indices then (shapes, decided_path_indices)
      else
        (case fold (inner_body U paths i) [0 ..< length paths] (None, decided_path_indices) of
           (None, decided) \<Rightarrow> (shapes, decided)
         | (Some known_shape, decided) \<Rightarrow> (shapes @ [known_shape], decided)))"

text \<open>
  The last loop, \<open>for (let i = 0; i < paths.length && !decided_path_indices.has(i); i++)\<close>,
  runs over the indices before the first decided one: the test on the set is part of the
  loop condition.
\<close>

definition classify :: "externals \<Rightarrow> path list \<Rightarrow> shape list" where
  "classify U paths =
     (case fold (outer_body U paths) [0 ..< length paths] ([], {}) of
        (shapes, decided_path_indices) \<Rightarrow>
          shapes @
          map (\<lambda>i. new_Shape\<lparr>curves := curves new_Shape @ curves (paths ! i)\<rparr>)
            (takeWhile (\<lambda>i. i \<notin> decided_path_indices) [0 ..< length paths]))"

definition computeShapes :: "externals \<Rightarrow> point list \<Rightarrow> error + shape list" where
  "computeShapes U points =
     (case buildPaths U points of
        Inl e \<Rightarrow> Inl e
      | Inr paths \<Rightarrow> Inr (classify U paths))"

section \<open>Styles, geometry buffers and the entity\<close>

type_synonym ref = nat

text \<open>
  A style object with its five fields, as \<open>DEFAULT_STYLE\<close> has them, and the style object
  a caller passes, in which any field may be absent (\<open>None\<close>). Colours are packed RGB.
\<close>

record style =
  strokeColor :: nat
  strokeOpacity :: real
  fillColor :: nat
  fillOpacity :: real
  strokeWidth :: real

record style_arg =
  opt_strokeColor :: "nat option"
  opt_strokeOpacity :: "real option"
  opt_fillColor :: "nat option"
  opt_fillOpacity :: "real option"
  opt_strokeWidth :: "real option"

text \<open>
  A geometry buffer is the work of a collaborator (the fill tessellator, the line-ribbon
  builder). The model keeps what the lifecycle decides: the shapes the buffer was last
  computed from, how often it was computed, and whether it was disposed.
\<close>

record geometry_buffer =
  source :: "shape list"
  builds :: nat
  disposed :: bool

text \<open>
  The store: style objects and geometry buffers by reference, and the next unused
  geometry reference. A reference held by an object always designates an object, so the
  stores are total.
\<close>

record heap =
  styles :: "ref \<Rightarrow> style"
  geometries :: "ref \<Rightarrow> geometry_buffer"
  next_geometry :: ref

datatype side = FrontSide | BackSide | DoubleSide

record material =
  color :: nat
  opacity :: real
  transparent :: bool

record meshBasicMaterial = material +
  side :: side

record meshLineMaterial = material +
  lineWidth :: real

record 'm mesh =
  geometry :: ref
  material :: 'm

record mobject =
  mobjectId :: nat
  style :: ref
  shapes :: "shape list"
  fillMesh :: "meshBasicMaterial mesh"
  strokeMesh :: "meshLineMaterial mesh"

text \<open>
  The module-level object \<open>DEFAULT_STYLE\<close> (colour \<open>0xffffff\<close> is 16777215) and the
  store right after the module is loaded.
\<close>

definition DEFAULT_STYLE :: ref where
  "DEFAULT_STYLE = 0"

definition original_defaults :: style where
  "original_defaults =
     \<lparr>strokeColor = 16777215, strokeOpacity = 1, fillColor = 0, fillOpacity = 1,
      strokeWidth = 4\<rparr>"

definition STROKE_SHRINK_FACTOR :: real where
  "STROKE_SHRINK_FACTOR = 100"

definition module_loaded :: heap where
  "module_loaded =
     \<lparr>styles = (\<lambda>r. original_defaults),
      geometries = (\<lambda>r. \<lparr>source = [], builds = 0, disposed = False\<rparr>),
      next_geometry = 0\<rparr>"

text \<open>
  \<open>Object.assign(target, source)\<close>: every field present in the source is written into the
  target object, in place, and the target reference is returned.
\<close>

definition assign_fields :: "style \<Rightarrow> style_arg \<Rightarrow> style" where
  "assign_fields t s =
     \<lparr>strokeColor = (case opt_strokeColor s of None \<Rightarrow> strokeColor t | Some v \<Rightarrow> v),
      strokeOpacity = (case opt_strokeOpacity s of None \<Rightarrow> strokeOpacity t | Some v \<Rightarrow> v),
      fillColor = (case opt_fillColor s of None \<Rightarrow> fillColor t | Some v \<Rightarrow> v),
      fillOpacity = (case opt_fillOpacity s of None \<Rightarrow> fillOpacity t | Some v \<Rightarrow> v),
      strokeWidth = (case opt_strokeWidth s of None \<Rightarrow> strokeWidth t | Some v \<Rightarrow> v)\<rparr>"

definition Object_assign :: "heap \<Rightarrow> ref \<Rightarrow> style_arg \<Rightarrow> heap \<times> ref" where
  "Object_assign h target src =
     (h\<lparr>styles := (styles h)(target := assign_fields (styles h target) src)\<rparr>, target)"

text \<open>
  Allocation of a buffer computed from the given shapes, and \<open>geometry.dispose()\<close>. The
  buffers are built by collaborators (\<open>MeshLine\<close>, \<open>BufferGeometryUtils\<close>,
  \<open>MobjectFillBufferGeometry\<close>).
\<close>

definition new_geometry :: "heap \<Rightarrow> shape list \<Rightarrow> heap \<times> ref" where
  "new_geometry h shs =
     (h\<lparr>geometries := (geometries h)(next_geometry h :=
            \<lparr>source = shs, builds = 1, disposed = False\<rparr>),
        next_geometry := Suc (next_geometry h)\<rparr>,
      next_geometry h)"

definition dispose_geometry :: "heap \<Rightarrow> ref \<Rightarrow> heap" where
  "dispose_geometry h r =
     h\<lparr>geometries := (geometries h)(r := (geometries h r)\<lparr>disposed := True\<rparr>)\<rparr>"

text \<open>
  The methods of the class, in the order of the source.

  \<open>computeStrokeGeometry\<close> collects one merged line geometry per shape and hands the
  array to \<open>BufferGeometryUtils.mergeBufferGeometries\<close>. That function reads
  \<open>geometries[0].index\<close> first, so with no shapes, where the array is empty, it raises
  \<open>TypeError\<close>. Within \<open>createMeshLineGeometries\<close> the array always holds the outline
  of the shape, so the merge there has at least one element.
\<close>

definition computeStrokeGeometry :: "heap \<Rightarrow> shape list \<Rightarrow> error + heap \<times> ref" where
  "computeStrokeGeometry h shs =
     (if shs = [] then Inl TypeError else Inr (new_geometry h shs))"

definition computeStrokeMaterial :: "style \<Rightarrow> meshLineMaterial" where
  "computeStrokeMaterial s =
     \<lparr>color = strokeColor s, opacity = strokeOpacity s, transparent = True,
      lineWidth = strokeWidth s / STROKE_SHRINK_FACTOR\<rparr>"

definition updateStrokeMaterial :: "heap \<Rightarrow> mobject \<Rightarrow> mobject" where
  "updateStrokeMaterial h m =
     (let s = styles h (style m) in
      m\<lparr>strokeMesh := (strokeMesh m)\<lparr>material := (material (strokeMesh m))
           \<lparr>color := strokeColor s, opacity := strokeOpacity s,
            lineWidth := strokeWidth s / STROKE_SHRINK_FACTOR\<rparr>\<rparr>\<rparr>)"

definition computeFillGeometry :: "heap \<Rightarrow> shape list \<Rightarrow> heap \<times> ref" where
  "computeFillGeometry h shs = new_geometry h shs"

text \<open>
  Modelled from the spec: \<open>MobjectFillBufferGeometry.update(shapes)\<close>, whose file is not
  among the sources, refreshes the buffer in place from the shapes.
\<close>

definition updateFillGeometry :: "heap \<Rightarrow> mobject \<Rightarrow> heap" where
  "updateFillGeometry h m =
     (let r = geometry (fillMesh m) in
      h\<lparr>geometries := (geometries h)(r := (geometries h r)
           \<lparr>source := shapes m, builds := Suc (builds (geometries h r))\<rparr>)\<rparr>)"

definition computeFillMaterial :: "style \<Rightarrow> meshBasicMaterial" where
  "computeFillMaterial s =
     \<lparr>color = fillColor s, opacity = fillOpacity s, transparent = True, side = DoubleSide\<rparr>"

definition updateFillMaterial :: "heap \<Rightarrow> mobject \<Rightarrow> mobject" where
  "updateFillMaterial h m =
     (let s = styles h (style m) in
      m\<lparr>fillMesh := (fillMesh m)\<lparr>material := (material (fillMesh m))
           \<lparr>color := fillColor s, opacity := fillOpacity s\<rparr>\<rparr>\<rparr>)"

text \<open>
  The constructor. It returns the store together with the entity or the exception: the
  assignment into \<open>DEFAULT_STYLE\<close> has happened when \<open>computeShapes\<close> throws, and the
  fill buffer is allocated as well when \<open>computeStrokeGeometry\<close> throws.
\<close>

definition Mobject ::
  "externals \<Rightarrow> heap \<Rightarrow> nat \<Rightarrow> point list \<Rightarrow> style_arg \<Rightarrow> (error + mobject) \<times> heap" where
  "Mobject U h ident points sty =
     (case Object_assign h DEFAULT_STYLE sty of
        (h1, st) \<Rightarrow>
          (case computeShapes U points of
             Inl e \<Rightarrow> (Inl e, h1)
           | Inr shs \<Rightarrow>
               (case computeFillGeometry h1 shs of
                  (h2, fg) \<Rightarrow>
                    (case computeStrokeGeometry h2 shs of
                       Inl e \<Rightarrow> (Inl e, h2)
                     | Inr (h3, sg) \<Rightarrow>
                         (Inr \<lparr>mobjectId = ident, style = st, shapes = shs,
                               fillMesh = \<lparr>geometry = fg,
                                            material = computeFillMaterial (styles h2 st)\<rparr>,
                               strokeMesh = \<lparr>geometry = sg,
                                              material = computeStrokeMaterial (styles h3 st)\<rparr>\<rparr>,
                          h3)))))"

text \<open>
  \<open>update\<close> changes the entity in place, so when it throws the caller still holds the
  entity as it was changed up to the throw: the exception comes with the entity.

  The \<open>if (needsRedraw)\<close> block of \<open>update\<close>, entered after \<open>computeShapes\<close> returned
  \<open>shs\<close>. Both tests read the field of the style argument itself: an absent field is
  \<open>undefined\<close>, and \<open>undefined === 0\<close> is false. The old stroke buffer is disposed
  before \<open>computeStrokeGeometry\<close> is called.
\<close>

definition redraw ::
  "heap \<Rightarrow> mobject \<Rightarrow> shape list \<Rightarrow> style_arg \<Rightarrow> (error \<times> mobject + mobject) \<times> heap" where
  "redraw h m shs sty =
     (let m1 = m\<lparr>shapes := shs\<rparr>;
          h1 = (if \<not> (fillOpacity (styles h (style m1)) = 0 \<and> opt_fillOpacity sty = Some 0)
                then updateFillGeometry h m1 else h)
      in if \<not> (strokeOpacity (styles h1 (style m1)) = 0 \<and> opt_strokeOpacity sty = Some 0)
         then (let h2 = dispose_geometry h1 (geometry (strokeMesh m1)) in
               case computeStrokeGeometry h2 (shapes m1) of
                 Inl e \<Rightarrow> (Inl (e, m1), h2)
               | Inr (h3, g) \<Rightarrow>
                   (Inr (m1\<lparr>strokeMesh := (strokeMesh m1)\<lparr>geometry := g\<rparr>\<rparr>), h3))
         else (Inr m1, h1))"

definition restyle ::
  "heap \<Rightarrow> mobject \<Rightarrow> style_arg \<Rightarrow> (error \<times> mobject + mobject) \<times> heap" where
  "restyle h m sty =
     (case Object_assign h (style m) sty of
        (h1, st) \<Rightarrow>
          (Inr (updateStrokeMaterial h1 (updateFillMaterial h1 (m\<lparr>style := st\<rparr>))), h1))"

definition update ::
  "externals \<Rightarrow> heap \<Rightarrow> mobject \<Rightarrow> point list \<Rightarrow> style_arg \<Rightarrow> bool
     \<Rightarrow> (error \<times> mobject + mobject) \<times> heap" where
  "update U h m points sty needsRedraw =
     (if needsRedraw
      then (case computeShapes U points of
              Inl e \<Rightarrow> (Inl (e, m), h)
            | Inr shs \<Rightarrow>
                (case redraw h m shs sty of
                   (Inl em, h1) \<Rightarrow> (Inl em, h1)
                 | (Inr m1, h1) \<Rightarrow> restyle h1 m1 sty))
      else restyle h m sty)"

text \<open>The entity as a call of \<open>update\<close> leaves it, whether it returned or threw.\<close>

definition entity_after :: "error \<times> mobject + mobject \<Rightarrow> mobject" where
  "entity_after r = (case r of Inl (e, m) \<Rightarrow> m | Inr m \<Rightarrow> m)"


section \<open>Notions used to state the properties\<close>

text \<open>The number of Bezier segments held by a list of paths.\<close>

definition segments :: "path list \<Rightarrow> nat" where
  "segments ps = sum_list (map (\<lambda>p. length (curves p)) ps)"

text \<open>
  A point sequence is chained when the end point of every segment but the last is
  \<open>allClose\<close> to the start point of the segment after it.
\<close>

definition chained :: "externals \<Rightarrow> point list \<Rightarrow> bool" where
  "chained U points =
     (\<forall>i \<in> set [0 ..< length points div 4 - 1].
        allClose U (points ! (4 * i + 3)) (points ! (4 * i + 4)))"

text \<open>
  The curve that segment \<open>j\<close> contributes to a path it does not start: \<open>bezierCurveTo\<close>
  begins at the current point, which is the end point of segment \<open>j - 1\<close>; the first
  segment begins at its own start point. \<open>joined points k\<close> is the single path made of the
  first \<open>k\<close> segments.
\<close>

definition segment_curve :: "point list \<Rightarrow> nat \<Rightarrow> curve" where
  "segment_curve points j =
     (if j = 0 then points ! 0 else points ! (4 * j - 1),
      points ! (4 * j + 1), points ! (4 * j + 2), points ! (4 * j + 3))"

definition joined :: "point list \<Rightarrow> nat \<Rightarrow> path" where
  "joined points k =
     \<lparr>curves = map (segment_curve points) [0 ..< k], currentPoint = points ! (4 * k - 1)\<rparr>"

text \<open>Loop invariants of the path-building loop.\<close>

fun pending :: "path option \<times> bool \<times> path list \<Rightarrow> nat" where
  "pending (path, move, paths) =
     segments paths +
     (if move then 0 else case path of None \<Rightarrow> 0 | Some pa \<Rightarrow> length (curves pa))"

fun ready :: "point list \<Rightarrow> nat \<Rightarrow> path option \<times> bool \<times> path list \<Rightarrow> bool" where
  "ready points i (path, move, paths) = (move \<or> (path \<noteq> None \<and> 4 * i < length points))"

definition joined_state :: "point list \<Rightarrow> nat \<Rightarrow> path option \<times> bool \<times> path list" where
  "joined_state points k =
     (if k = 0 then (None, True, []) else (Some (joined points k), False, []))"

text \<open>
  The geometry references of an entity are in use and distinct, as they are for every
  entity the constructor returns.
\<close>

definition allocated :: "heap \<Rightarrow> mobject \<Rightarrow> bool" where
  "allocated h m =
     (geometry (fillMesh m) < next_geometry h \<and>
      geometry (strokeMesh m) < next_geometry h \<and>
      geometry (fillMesh m) \<noteq> geometry (strokeMesh m))"

section \<open>Concrete helpers and inputs for the evaluated examples\<close>

text \<open>
  Modelled from the spec: \<open>utils.allClose\<close> (utils.js is not among the sources), a
  component-wise comparison within a tolerance.
\<close>

definition allClose_spec :: "real \<Rightarrow> point \<Rightarrow> point \<Rightarrow> bool" where
  "allClose_spec tol a b = (\<bar>fst a - fst b\<bar> \<le> tol \<and> \<bar>snd a - snd b\<bar> \<le> tol)"

text \<open>
  Modelled from the spec: \<open>utils.isPointInsidePolygon\<close> (utils.js is not among the
  sources), the ray-casting test: a point is inside when a horizontal ray from it crosses
  an odd number of polygon edges.
\<close>

fun crosses :: "point \<Rightarrow> point \<times> point \<Rightarrow> bool" where
  "crosses (x, y) ((xi, yi), (xj, yj)) =
     (((yi > y) \<noteq> (yj > y)) \<and> x < (xj - xi) * (y - yi) / (yj - yi) + xi)"

definition isPointInsidePolygon_spec :: "point \<Rightarrow> point list \<Rightarrow> bool" where
  "isPointInsidePolygon_spec p vs =
     (case vs of
        [] \<Rightarrow> False
      | _ # _ \<Rightarrow>
          fold (\<lambda>e inside. if crosses p e then \<not> inside else inside)
            (zip vs (last vs # butlast vs)) False)"

text \<open>
  Modelled from the spec: the sampling of \<open>THREE.Path\<close>, as the first point of the path
  and as its vertex polygon (the start point followed by the end point of every curve).
\<close>

definition getPoint0_spec :: "path \<Rightarrow> point" where
  "getPoint0_spec pa = (case curves pa of [] \<Rightarrow> currentPoint pa | (s, c1, c2, e) # _ \<Rightarrow> s)"

definition getPoints_spec :: "path \<Rightarrow> point list" where
  "getPoints_spec pa =
     (case curves pa of
        [] \<Rightarrow> []
      | _ # _ \<Rightarrow> getPoint0_spec pa # map (\<lambda>(s, c1, c2, e). e) (curves pa))"

definition spec_externals :: externals where
  "spec_externals =
     \<lparr>allClose = allClose_spec (1 / 100000000),
      isPointInsidePolygon = isPointInsidePolygon_spec,
      getPoint0 = getPoint0_spec,
      getPoints = getPoints_spec\<rparr>"

text \<open>
  A polyline through the given vertices as a point sequence, every edge \<open>a\<close>--\<open>b\<close> being
  the straight cubic segment \<open>[a, a, b, b]\<close>, and the path that sequence builds.
\<close>

definition polygon_points :: "point list \<Rightarrow> point list" where
  "polygon_points vs = concat (map (\<lambda>(a, b). [a, a, b, b]) (zip vs (tl vs)))"

definition polygon_path :: "point list \<Rightarrow> path" where
  "polygon_path vs =
     \<lparr>curves = map (\<lambda>(a, b). (a, a, b, b)) (zip vs (tl vs)), currentPoint = last vs\<rparr>"

definition outer_triangle :: "point list" where
  "outer_triangle = [(0, 0), (10, 0), (0, 10), (0, 0)]"

definition inner_triangle :: "point list" where
  "inner_triangle = [(1, 1), (2, 1), (1, 2), (1, 1)]"

definition far_triangle :: "point list" where
  "far_triangle = [(20, 20), (21, 20), (20, 21), (20, 20)]"

definition open_corner :: "point list" where
  "open_corner = [(0, 0), (10, 0), (0, 10)]"

text \<open>The style object \<open>{}\<close> and the style object \<open>{fillOpacity: 0, strokeOpacity: 0}\<close>.\<close>

definition no_style :: style_arg where
  "no_style =
     \<lparr>opt_strokeColor = None, opt_strokeOpacity = None, opt_fillColor = None,
      opt_fillOpacity = None, opt_strokeWidth = None\<rparr>"

definition invisible :: style_arg where
  "invisible = no_style\<lparr>opt_strokeOpacity := Some 0, opt_fillOpacity := Some 0\<rparr>"

text \<open>The style object \<open>{fillOpacity: 0}\<close>.\<close>

definition hidden_fill :: style_arg where
  "hidden_fill = no_style\<lparr>opt_fillOpacity := Some 0\<rparr>"

text \<open>
  The first construction after the module is loaded, and a second construction in the
  store the first one leaves; \<open>built\<close> is the entity a construction or update returned.
\<close>

definition first_entity :: "style_arg \<Rightarrow> (error + mobject) \<times> heap" where
  "first_entity sty = Mobject spec_externals module_loaded 1 (polygon_points outer_triangle) sty"

definition second_entity :: "style_arg \<Rightarrow> style_arg \<Rightarrow> (error + mobject) \<times> heap" where
  "second_entity sty1 sty2 =
     Mobject spec_externals (snd (first_entity sty1)) 2 (polygon_points inner_triangle) sty2"

definition built :: "('e + mobject) \<times> heap \<Rightarrow> mobject" where
  "built r = projr (fst r)"

section \<open>Properties of path building\<close>

subsection \<open>One pass of the loop\<close>

lemma loop_body_short:
  "length points < 4 * i + 4 \<Longrightarrow> loop_body U points i st = Inl TypeError"
  by (cases st) (auto simp: element_def Let_def split: option.splits sum.splits)

lemma loop_body_full:
  assumes "4 * i + 4 \<le> length points" and "move \<or> path = Some pa0"
  shows "loop_body U points i (path, move, paths) =
     (let pa = (if move then moveTo (points ! (4 * i)) new_Path else pa0);
          path2 = bezierCurveTo (points ! (4 * i + 1)) (points ! (4 * i + 2)) (points ! (4 * i + 3)) pa;
          move2 = (4 * i + 4 = length points \<or> \<not> allClose U (points ! (4 * i + 3)) (points ! (4 * i + 4)))
      in Inr (Some path2, move2, if move2 then paths @ [path2] else paths))"
  using assms by (auto simp: element_def Let_def)

lemma segments_snoc: "segments (ps @ [p]) = segments ps + length (curves p)"
  by (simp add: segments_def)

lemma loop_body_step:
  assumes len: "4 * i + 4 \<le> length points" and r: "ready points i st"
  shows "\<exists>st'. loop_body U points i st = Inr st' \<and> ready points (Suc i) st' \<and> pending st' = Suc (pending st)"
proof -
  obtain path move paths where st: "st = (path, move, paths)" by (cases st)
  from r st obtain pa0 where m: "move \<or> path = Some pa0" by auto
  show ?thesis
    unfolding st loop_body_full [OF len m]
    using len m by (auto simp: Let_def segments_snoc bezierCurveTo_def moveTo_def new_Path_def)
qed

lemma buildPaths_from_total:
  "length points mod 4 = 0 \<Longrightarrow> 4 * i \<le> length points \<Longrightarrow> ready points i st \<Longrightarrow> pending st = i \<Longrightarrow>
   \<exists>ps. buildPaths_from U points i st = Inr ps \<and> segments ps = length points div 4"
proof (induction U points i st rule: buildPaths_from.induct)
  case (1 U points i st)
  obtain path move paths where st: "st = (path, move, paths)" by (cases st)
  show ?case
  proof (cases "4 * i < length points")
    case False
    with 1(3) have e: "4 * i = length points" by simp
    with 1(4) st have "move" by simp
    with 1(5) st have "segments paths = i" by simp
    with e st show ?thesis by (simp add: buildPaths_from.simps [of U points i])
  next
    case True
    with 1(2) have len: "4 * i + 4 \<le> length points" by presburger
    from loop_body_step [OF len 1(4), of U] obtain st' where
      b: "loop_body U points i st = Inr st'" and r: "ready points (Suc i) st'"
      and p: "pending st' = Suc (pending st)" by blast
    from len have "4 * Suc i \<le> length points" by simp
    from 1(1) [OF True b 1(2) this r] p 1(5)
    obtain ps where "buildPaths_from U points (Suc i) st' = Inr ps" "segments ps = length points div 4"
      by auto
    with True b show ?thesis
      by (simp add: buildPaths_from.simps [of U points i])
  qed
qed

lemma buildPaths_from_short:
  "length points mod 4 \<noteq> 0 \<Longrightarrow> 4 * i < length points \<Longrightarrow> ready points i st \<Longrightarrow>
   buildPaths_from U points i st = Inl TypeError"
proof (induction U points i st rule: buildPaths_from.induct)
  case (1 U points i st)
  show ?case
  proof (cases "4 * i + 4 \<le> length points")
    case False
    then have "loop_body U points i st = Inl TypeError" by (simp add: loop_body_short)
    with 1(3) show ?thesis
      by (simp add: buildPaths_from.simps [of U points i])
  next
    case True
    with 1(2) have lt: "4 * Suc i < length points" by presburger
    from loop_body_step [OF True 1(4), of U] obtain st' where
      b: "loop_body U points i st = Inr st'" and r: "ready points (Suc i) st'" by blast
    from 1(1) [OF 1(3) b 1(2) lt r] 1(3) b show ?thesis
      by (simp add: buildPaths_from.simps [of U points i])
  qed
qed

lemma chainedD:
  assumes ch: "chained U points" and m4: "length points mod 4 = 0"
    and lt: "4 * k + 4 < length points"
  shows "allClose U (points ! (4 * k + 3)) (points ! (4 * k + 4))"
proof -
  from lt m4 have "k < length points div 4 - 1" by presburger
  with ch show ?thesis by (simp add: chained_def)
qed

lemma joined_1:
  "bezierCurveTo (points ! (4 * 0 + 1)) (points ! (4 * 0 + 2)) (points ! (4 * 0 + 3))
     (moveTo (points ! (4 * 0)) new_Path) = joined points (Suc 0)"
  by (simp add: joined_def segment_curve_def bezierCurveTo_def moveTo_def new_Path_def)

lemma joined_Suc:
  "0 < k \<Longrightarrow>
   bezierCurveTo (points ! (4 * k + 1)) (points ! (4 * k + 2)) (points ! (4 * k + 3))
     (joined points k) = joined points (Suc k)"
  by (simp add: joined_def segment_curve_def bezierCurveTo_def add.commute)

lemma loop_body_joined_0:
  assumes len: "4 * 0 + 4 \<le> length points" and ch: "chained U points"
    and m4: "length points mod 4 = 0"
  shows "loop_body U points 0 (None, True, []) =
     Inr (if 4 * 0 + 4 = length points
          then (Some (joined points (Suc 0)), True, [joined points (Suc 0)])
          else (Some (joined points (Suc 0)), False, []))"
proof -
  have m: "True \<or> None = Some new_Path" by simp
  note step = loop_body_full [OF len m, of U "[]"]
  from len chainedD [OF ch m4, of 0]
  have "4 * 0 + 4 \<noteq> length points \<Longrightarrow> allClose U (points ! (4 * 0 + 3)) (points ! (4 * 0 + 4))"
    by simp
  then show ?thesis
    unfolding step if_True Let_def joined_1 by auto
qed

lemma loop_body_joined_Suc:
  assumes len: "4 * k + 4 \<le> length points" and ch: "chained U points" and k: "0 < k"
    and m4: "length points mod 4 = 0"
  shows "loop_body U points k (Some (joined points k), False, []) =
     Inr (if 4 * k + 4 = length points then (Some (joined points (Suc k)), True, [joined points (Suc k)])
          else (Some (joined points (Suc k)), False, []))"
proof -
  have m: "False \<or> Some (joined points k) = Some (joined points k)" by simp
  note step = loop_body_full [OF len m, of U "[]"]
  from len chainedD [OF ch m4, of k]
  have "4 * k + 4 \<noteq> length points \<Longrightarrow> allClose U (points ! (4 * k + 3)) (points ! (4 * k + 4))"
    by simp
  then show ?thesis
    unfolding step if_False Let_def joined_Suc [OF k] by auto
qed

lemma loop_body_joined:
  assumes len: "4 * k + 4 \<le> length points" and ch: "chained U points"
    and m4: "length points mod 4 = 0"
  shows "loop_body U points k (joined_state points k) =
     Inr (if 4 * k + 4 = length points then (Some (joined points (Suc k)), True, [joined points (Suc k)])
          else joined_state points (Suc k))"
proof (cases "k = 0")
  case True
  with len have "4 * 0 + 4 \<le> length points" by simp
  from loop_body_joined_0 [OF this ch m4] True show ?thesis
    by (simp add: joined_state_def)
next
  case False
  then have "0 < k" by simp
  from loop_body_joined_Suc [OF len ch this m4] False show ?thesis
    by (simp add: joined_state_def)
qed

lemma buildPaths_from_joined:
  assumes m4: "length points mod 4 = 0" and ch: "chained U points"
  shows "4 * k < length points \<Longrightarrow>
     buildPaths_from U points k (joined_state points k) = Inr [joined points (length points div 4)]"
proof (induction "length points div 4 - k" arbitrary: k)
  case 0
  with m4 show ?case by presburger
next
  case (Suc d)
  from Suc(3) m4 have len: "4 * k + 4 \<le> length points" by presburger
  note body = loop_body_joined [OF len ch m4]
  show ?case
  proof (cases "4 * k + 4 = length points")
    case True
    then have n: "length points div 4 = Suc k" by presburger
    from True have stop: "\<not> 4 * Suc k < length points" by simp
    from True Suc(3) have "buildPaths_from U points k (joined_state points k) =
        buildPaths_from U points (Suc k) (Some (joined points (Suc k)), True, [joined points (Suc k)])"
      by (simp add: buildPaths_from.simps [of U points k] body)
    also from stop have "\<dots> = Inr [joined points (Suc k)]"
      by (simp add: buildPaths_from.simps [of U points "Suc k"])
    finally show ?thesis by (simp add: n)
  next
    case False
    with len have lt: "4 * Suc k < length points" by simp
    from Suc(2) have "d = length points div 4 - Suc k" by simp
    from Suc(1) [OF this lt] Suc(3) False show ?thesis
      by (simp add: buildPaths_from.simps [of U points k] body)
  qed
qed

lemma buildPaths_valid:
  "length points mod 4 = 0 \<Longrightarrow>
     \<exists>ps. buildPaths U points = Inr ps \<and> segments ps = length points div 4"
  unfolding buildPaths_def
  by (rule buildPaths_from_total) (simp_all add: segments_def)

lemma buildPaths_empty: "buildPaths U [] = Inr []"
  by (simp add: buildPaths_def buildPaths_from.simps)

lemma buildPaths_one_segment:
  "buildPaths U [a, b, c, d] = Inr [\<lparr>curves = [(a, b, c, d)], currentPoint = d\<rparr>]"
  by (simp add: buildPaths_def buildPaths_from.simps element_def Let_def
      bezierCurveTo_def moveTo_def new_Path_def)

lemma computeShapes_valid:
  "length points mod 4 = 0 \<Longrightarrow> \<exists>shs. computeShapes U points = Inr shs"
  using buildPaths_valid [of points U] by (auto simp: computeShapes_def)

lemma polygon_points_open_corner:
  "polygon_points open_corner =
     [(0, 0), (0, 0), (10, 0), (10, 0), (10, 0), (10, 0), (0, 10), (0, 10)]"
  by (simp add: polygon_points_def open_corner_def)

lemma chained_open_corner: "chained spec_externals (polygon_points open_corner)"
  by (simp add: polygon_points_open_corner chained_def spec_externals_def allClose_spec_def)

lemma three_triangles_paths:
  "buildPaths spec_externals
     (polygon_points outer_triangle @ polygon_points inner_triangle @ polygon_points far_triangle) =
   Inr [polygon_path outer_triangle, polygon_path inner_triangle, polygon_path far_triangle]"
  by (simp add: buildPaths_def buildPaths_from.simps polygon_points_def polygon_path_def
      outer_triangle_def inner_triangle_def far_triangle_def element_def Let_def
      spec_externals_def allClose_spec_def bezierCurveTo_def moveTo_def new_Path_def)

subsection \<open>Segment count\<close>

text \<open>
  Claim C7. For every point sequence whose length is a multiple of 4, path building
  returns a list of paths, and the segment counts of the returned paths add up to
  \<open>points.length / 4\<close>. The empty sequence yields the empty path list, and a sequence of
  four points yields exactly one path with exactly one segment.
\<close>

theorem buildPaths_segment_count:
  "(length points mod 4 = 0 \<longrightarrow>
      (\<exists>ps. buildPaths U points = Inr ps \<and> segments ps = length points div 4)) \<and>
   buildPaths U [] = Inr [] \<and>
   buildPaths U [a, b, c, d] = Inr [\<lparr>curves = [(a, b, c, d)], currentPoint = d\<rparr>]"
  using buildPaths_valid [of points U] buildPaths_empty [of U] buildPaths_one_segment [of U a b c d]
  by blast

text \<open>The count at a sequence of 36 points, which splits into three paths.\<close>

theorem buildPaths_segment_count_witness:
  "length (polygon_points outer_triangle @ polygon_points inner_triangle @
           polygon_points far_triangle) mod 4 = 0 \<and>
   (\<exists>ps. buildPaths spec_externals
           (polygon_points outer_triangle @ polygon_points inner_triangle @
            polygon_points far_triangle) = Inr ps \<and>
         segments ps = 9)"
proof -
  let ?P = "polygon_points outer_triangle @ polygon_points inner_triangle @
            polygon_points far_triangle"
  have len: "length ?P = 36"
    by (simp add: polygon_points_def outer_triangle_def inner_triangle_def far_triangle_def)
  then have h: "length ?P mod 4 = 0" by simp
  from buildPaths_segment_count [of ?P spec_externals] h len show ?thesis by simp
qed

subsection \<open>Sequences whose length is not a multiple of 4\<close>

text \<open>
  Claim C2, as the code has it. For every point sequence whose length is not a multiple
  of 4, path building returns no paths: the loop runs once more for the incomplete last
  segment, after the complete segments before it, and raises \<open>TypeError\<close> when it reads a
  coordinate of the first point that is missing. \<open>computeShapes\<close> raises the same.
\<close>

theorem buildPaths_malformed:
  "length points mod 4 \<noteq> 0 \<Longrightarrow>
     buildPaths U points = Inl TypeError \<and> computeShapes U points = Inl TypeError"
proof -
  assume m: "length points mod 4 \<noteq> 0"
  then have "4 * 0 < length points" by auto
  with m have "buildPaths_from U points 0 (None, True, []) = Inl TypeError"
    by (intro buildPaths_from_short) simp_all
  then show ?thesis by (simp add: buildPaths_def computeShapes_def)
qed

theorem buildPaths_malformed_witness:
  "length [(0, 0), (1, 0), (2, 0), (3, 0), (4, 0), (5, 0) :: point] mod 4 \<noteq> 0 \<and>
   buildPaths spec_externals [(0, 0), (1, 0), (2, 0), (3, 0), (4, 0), (5, 0)] = Inl TypeError \<and>
   computeShapes spec_externals [(0, 0), (1, 0), (2, 0), (3, 0), (4, 0), (5, 0)] = Inl TypeError"
proof -
  have h: "length [(0, 0), (1, 0), (2, 0), (3, 0), (4, 0), (5, 0) :: point] mod 4 \<noteq> 0"
    by simp
  from buildPaths_malformed [OF h, of spec_externals] h show ?thesis by blast
qed

text \<open>
  With five points the first segment is processed, index 5 is read past the end of the
  array, and the exception is \<open>TypeError\<close>, not \<open>InvalidGeometryInput\<close>.
\<close>

theorem buildPaths_malformed_counterexample:
  "length [(0, 0), (1, 0), (2, 0), (3, 0), (4, 0) :: point] mod 4 \<noteq> 0 \<and>
   element [(0, 0), (1, 0), (2, 0), (3, 0), (4, 0) :: point] (4 * 1 + 1) = None \<and>
   buildPaths spec_externals [(0, 0), (1, 0), (2, 0), (3, 0), (4, 0)] = Inl TypeError \<and>
   buildPaths spec_externals [(0, 0), (1, 0), (2, 0), (3, 0), (4, 0)] \<noteq> Inl InvalidGeometryInput"
  by (simp add: buildPaths_def buildPaths_from.simps element_def Let_def
      spec_externals_def allClose_spec_def bezierCurveTo_def moveTo_def new_Path_def)

subsection \<open>Chained sequences\<close>

text \<open>
  Claim C9, for non-empty sequences. For every non-empty point sequence whose length is a
  multiple of 4 and in which the end point of each segment is \<open>allClose\<close> to the start
  point of the next one, path building returns exactly one path. It holds all the
  segments in order: the controls and end point of each, begun at the start point of the
  first segment and after that at the end point of the segment before. Nothing is asked
  of the last end point and the first start point.
\<close>

theorem buildPaths_single_path:
  assumes "points \<noteq> []" and "length points mod 4 = 0" and "chained U points"
  shows "buildPaths U points = Inr [joined points (length points div 4)]"
proof -
  from assms(1) have "4 * 0 < length points" by simp
  from buildPaths_from_joined [OF assms(2,3) this] show ?thesis
    by (simp add: buildPaths_def joined_state_def)
qed

text \<open>An open polyline of two segments: the last point is far from the first.\<close>

theorem buildPaths_single_path_witness:
  "polygon_points open_corner \<noteq> [] \<and> length (polygon_points open_corner) mod 4 = 0 \<and>
   chained spec_externals (polygon_points open_corner) \<and>
   \<not> allClose spec_externals (last (polygon_points open_corner)) (hd (polygon_points open_corner)) \<and>
   buildPaths spec_externals (polygon_points open_corner) =
     Inr [\<lparr>curves = [((0, 0), (0, 0), (10, 0), (10, 0)), ((10, 0), (10, 0), (0, 10), (0, 10))],
           currentPoint = (0, 10)\<rparr>]"
proof -
  have ne: "polygon_points open_corner \<noteq> []" by (simp add: polygon_points_open_corner)
  have m4: "length (polygon_points open_corner) mod 4 = 0" by (simp add: polygon_points_open_corner)
  have far: "\<not> allClose spec_externals (last (polygon_points open_corner)) (hd (polygon_points open_corner))"
    by (simp add: polygon_points_open_corner spec_externals_def allClose_spec_def)
  have j: "joined (polygon_points open_corner) (length (polygon_points open_corner) div 4) =
     \<lparr>curves = [((0, 0), (0, 0), (10, 0), (10, 0)), ((10, 0), (10, 0), (0, 10), (0, 10))],
      currentPoint = (0, 10)\<rparr>"
    by (simp add: polygon_points_open_corner joined_def segment_curve_def upt_rec)
  from buildPaths_single_path [OF ne m4 chained_open_corner] ne m4 chained_open_corner far j
  show ?thesis by simp
qed

text \<open>
  The empty sequence has a length that is a multiple of 4 and is chained, and it yields no
  path at all.
\<close>

theorem buildPaths_single_path_counterexample:
  "length ([] :: point list) mod 4 = 0 \<and> chained spec_externals [] \<and>
   buildPaths spec_externals [] = Inr []"
  by (simp add: chained_def buildPaths_def buildPaths_from.simps)

section \<open>Properties of shape classification\<close>

lemma upt_two: "[0 ..< Suc (Suc 0)] = [0, Suc 0]"
  by (simp add: upt_rec)

lemma inner_in_outer:
  "shapeContainsHole spec_externals (polygon_path outer_triangle) (polygon_path inner_triangle)"
  by (simp add: polygon_path_def outer_triangle_def inner_triangle_def
      spec_externals_def shapeContainsHole_def isPointInsidePolygon_spec_def
      getPoint0_spec_def getPoints_spec_def)

lemma outer_not_in_inner:
  "\<not> shapeContainsHole spec_externals (polygon_path inner_triangle) (polygon_path outer_triangle)"
  by (simp add: polygon_path_def outer_triangle_def inner_triangle_def
      spec_externals_def shapeContainsHole_def isPointInsidePolygon_spec_def
      getPoint0_spec_def getPoints_spec_def)

lemma three_triangles_classified:
  "classify spec_externals
     [polygon_path outer_triangle, polygon_path inner_triangle, polygon_path far_triangle] =
   [\<lparr>curves = curves (polygon_path outer_triangle), currentPoint = (0, 0),
     holes = [polygon_path inner_triangle]\<rparr>]"
  by (simp add: classify_def polygon_path_def outer_triangle_def inner_triangle_def
     far_triangle_def Let_def spec_externals_def shapeContainsHole_def isPointInsidePolygon_spec_def
     getPoint0_spec_def getPoints_spec_def new_Shape_def upt_rec)

lemma far_triangle_apart:
  "\<not> shapeContainsHole spec_externals (polygon_path outer_triangle) (polygon_path far_triangle) \<and>
   \<not> shapeContainsHole spec_externals (polygon_path inner_triangle) (polygon_path far_triangle) \<and>
   \<not> shapeContainsHole spec_externals (polygon_path far_triangle) (polygon_path outer_triangle) \<and>
   \<not> shapeContainsHole spec_externals (polygon_path far_triangle) (polygon_path inner_triangle)"
  by (simp add: polygon_path_def outer_triangle_def inner_triangle_def far_triangle_def
      spec_externals_def shapeContainsHole_def isPointInsidePolygon_spec_def
      getPoint0_spec_def getPoints_spec_def)

lemma far_triangle_first_paths:
  "buildPaths spec_externals
     (polygon_points far_triangle @ polygon_points outer_triangle @ polygon_points inner_triangle) =
   Inr [polygon_path far_triangle, polygon_path outer_triangle, polygon_path inner_triangle]"
  by (simp add: buildPaths_def buildPaths_from.simps polygon_points_def polygon_path_def
      outer_triangle_def inner_triangle_def far_triangle_def element_def Let_def
      spec_externals_def allClose_spec_def bezierCurveTo_def moveTo_def new_Path_def)

lemma classify_third_path_dropped:
  assumes "shapeContainsHole U A B" and "\<not> shapeContainsHole U A C"
  shows "classify U [A, B, C] = [\<lparr>curves = curves A, currentPoint = (0, 0), holes = [B]\<rparr>]"
  using assms by (simp add: classify_def new_Shape_def upt_rec)

lemma classify_first_path_kept:
  assumes "shapeContainsHole U A B" and "\<not> shapeContainsHole U A C"
    and "\<not> shapeContainsHole U C A" and "\<not> shapeContainsHole U C B"
  shows "classify U [C, A, B] =
    [\<lparr>curves = curves A, currentPoint = (0, 0), holes = [B]\<rparr>,
     \<lparr>curves = curves C, currentPoint = (0, 0), holes = []\<rparr>]"
  using assms by (simp add: classify_def new_Shape_def upt_rec)

text \<open>
  Claim C8. For every input list of exactly two paths \<open>A\<close> and \<open>B\<close>, in either order,
  where the first sampled point of \<open>B\<close> lies inside the vertex polygon of \<open>A\<close> and the
  first sampled point of \<open>A\<close> does not lie inside that of \<open>B\<close>, classification returns
  exactly one shape: its outer curves are those of \<open>A\<close> and its single hole is \<open>B\<close>.
\<close>

theorem classify_outer_with_hole:
  assumes "shapeContainsHole U A B" and "\<not> shapeContainsHole U B A"
  shows "classify U [A, B] = [\<lparr>curves = curves A, currentPoint = (0, 0), holes = [B]\<rparr>] \<and>
         classify U [B, A] = [\<lparr>curves = curves A, currentPoint = (0, 0), holes = [B]\<rparr>]"
  using assms by (simp add: classify_def upt_two new_Shape_def)

theorem classify_outer_with_hole_witness:
  "shapeContainsHole spec_externals (polygon_path outer_triangle) (polygon_path inner_triangle) \<and>
   \<not> shapeContainsHole spec_externals (polygon_path inner_triangle) (polygon_path outer_triangle) \<and>
   classify spec_externals [polygon_path outer_triangle, polygon_path inner_triangle] =
     [\<lparr>curves = curves (polygon_path outer_triangle), currentPoint = (0, 0),
       holes = [polygon_path inner_triangle]\<rparr>] \<and>
   classify spec_externals [polygon_path inner_triangle, polygon_path outer_triangle] =
     [\<lparr>curves = curves (polygon_path outer_triangle), currentPoint = (0, 0),
       holes = [polygon_path inner_triangle]\<rparr>]"
  using classify_outer_with_hole [OF inner_in_outer outer_not_in_inner]
    inner_in_outer outer_not_in_inner by blast

text \<open>
  Claim C1 says that every input path is consumed exactly once, as an outer boundary, as
  a hole, or as a trivial shape with no holes, so that no path is dropped. Here the code
  is evaluated on three triangles: the second lies inside the first, the third contains
  neither of them and lies in neither. Path building returns the three paths, and
  \<open>computeShapes\<close> returns the single shape of the first triangle with the second as its
  hole: the last loop stops at index 0, which is decided, and the third path is in no
  shape. With the third triangle given first, the same paths yield two shapes.
\<close>

theorem computeShapes_drops_path:
  "buildPaths spec_externals
     (polygon_points outer_triangle @ polygon_points inner_triangle @ polygon_points far_triangle) =
     Inr [polygon_path outer_triangle, polygon_path inner_triangle, polygon_path far_triangle] \<and>
   \<not> shapeContainsHole spec_externals (polygon_path outer_triangle) (polygon_path far_triangle) \<and>
   \<not> shapeContainsHole spec_externals (polygon_path inner_triangle) (polygon_path far_triangle) \<and>
   \<not> shapeContainsHole spec_externals (polygon_path far_triangle) (polygon_path outer_triangle) \<and>
   \<not> shapeContainsHole spec_externals (polygon_path far_triangle) (polygon_path inner_triangle) \<and>
   computeShapes spec_externals
     (polygon_points outer_triangle @ polygon_points inner_triangle @ polygon_points far_triangle) =
     Inr [\<lparr>curves = curves (polygon_path outer_triangle), currentPoint = (0, 0),
           holes = [polygon_path inner_triangle]\<rparr>] \<and>
   computeShapes spec_externals
     (polygon_points far_triangle @ polygon_points outer_triangle @ polygon_points inner_triangle) =
     Inr [\<lparr>curves = curves (polygon_path outer_triangle), currentPoint = (0, 0),
           holes = [polygon_path inner_triangle]\<rparr>,
          \<lparr>curves = curves (polygon_path far_triangle), currentPoint = (0, 0), holes = []\<rparr>]"
  using far_triangle_apart inner_in_outer
  by (simp add: computeShapes_def three_triangles_paths three_triangles_classified
      far_triangle_first_paths classify_first_path_kept)

section \<open>Properties of the entity lifecycle\<close>

subsection \<open>Point sequences that give at least one shape\<close>

lemma inner_body_None:
  "inner_body U paths i j (k, d) = (None, d1) \<Longrightarrow> k = None \<and> d1 = d"
  by (auto simp: Let_def split: if_splits option.splits)

lemma inner_fold_None:
  "fold (inner_body U paths i) js (k, d) = (None, d1) \<Longrightarrow> k = None \<and> d1 = d"
proof (induction js arbitrary: k d)
  case Nil
  then show ?case by simp
next
  case (Cons j js)
  obtain k2 d2 where b: "inner_body U paths i j (k, d) = (k2, d2)"
    by (cases "inner_body U paths i j (k, d)")
  with Cons.prems have "fold (inner_body U paths i) js (k2, d2) = (None, d1)" by simp
  from Cons.IH [OF this] have "k2 = None" "d1 = d2" by simp_all
  with b inner_body_None [of U paths i j k d d2] show ?case by simp
qed

lemma outer_body_shapes:
  assumes "snd s \<noteq> {} \<longrightarrow> fst s \<noteq> []"
  shows "snd (outer_body U paths i s) \<noteq> {} \<longrightarrow> fst (outer_body U paths i s) \<noteq> []"
proof -
  obtain shs d where s: "s = (shs, d)" by (cases s)
  obtain k d1 where f: "fold (inner_body U paths i) [0 ..< length paths] (None, d) = (k, d1)"
    by (cases "fold (inner_body U paths i) [0 ..< length paths] (None, d)")
  show ?thesis
  proof (cases k)
    case None
    with f inner_fold_None [of U paths i _ None d d1] have "d1 = d" by simp
    with assms s f None show ?thesis by simp
  next
    case (Some sh)
    with assms s f show ?thesis by simp
  qed
qed

lemma outer_fold_shapes:
  "snd s \<noteq> {} \<longrightarrow> fst s \<noteq> [] \<Longrightarrow>
   snd (fold (outer_body U paths) js s) \<noteq> {} \<longrightarrow> fst (fold (outer_body U paths) js s) \<noteq> []"
proof (induction js arbitrary: s)
  case Nil
  then show ?case by simp
next
  case (Cons j js)
  from Cons.IH [OF outer_body_shapes [OF Cons.prems]] show ?case by simp
qed

lemma classify_nonempty: "paths \<noteq> [] \<Longrightarrow> classify U paths \<noteq> []"
proof -
  assume ne: "paths \<noteq> []"
  obtain shs d where f: "fold (outer_body U paths) [0 ..< length paths] ([], {}) = (shs, d)"
    by (cases "fold (outer_body U paths) [0 ..< length paths] ([], {})")
  from outer_fold_shapes [of "([], {})" U paths "[0 ..< length paths]"] f
  have inv: "d \<noteq> {} \<longrightarrow> shs \<noteq> []" by simp
  show ?thesis
  proof (cases "d = {}")
    case True
    have tw: "takeWhile (\<lambda>i. i \<notin> d) [0 ..< length paths] = [0 ..< length paths]"
      using True by (simp add: takeWhile_eq_all_conv)
    from f have "length (classify U paths) =
        length shs + length (takeWhile (\<lambda>i. i \<notin> d) [0 ..< length paths])"
      by (simp add: classify_def)
    then have "length (classify U paths) = length shs + length paths"
      unfolding tw by simp
    with ne show ?thesis by auto
  next
    case False
    with inv f show ?thesis by (simp add: classify_def)
  qed
qed

lemma computeShapes_nonempty:
  assumes "points \<noteq> []" and "length points mod 4 = 0"
  shows "\<exists>shs. computeShapes U points = Inr shs \<and> shs \<noteq> []"
proof -
  from buildPaths_valid [OF assms(2), of U] obtain ps where
    b: "buildPaths U points = Inr ps" and n: "segments ps = length points div 4" by blast
  from assms(1) have "0 < length points" by simp
  with assms(2) have "0 < length points div 4" by presburger
  with n have "ps \<noteq> []" by (auto simp: segments_def)
  with b classify_nonempty [of ps U] show ?thesis by (simp add: computeShapes_def)
qed

subsection \<open>What redraw and restyle change\<close>

lemma redraw_returns:
  "shs \<noteq> [] \<Longrightarrow> \<exists>m1 h1. redraw h m shs sty = (Inr m1, h1)"
  by (simp add: redraw_def Let_def computeStrokeGeometry_def new_geometry_def)

lemma redraw_frame:
  "redraw h m shs sty = (r, h1) \<Longrightarrow>
     styles h1 = styles h \<and> style (entity_after r) = style m \<and>
     shapes (entity_after r) = shs \<and> fillMesh (entity_after r) = fillMesh m \<and>
     material (strokeMesh (entity_after r)) = material (strokeMesh m) \<and>
     mobjectId (entity_after r) = mobjectId m"
  by (auto simp: redraw_def Let_def entity_after_def updateFillGeometry_def
      computeStrokeGeometry_def new_geometry_def dispose_geometry_def split: if_splits)

lemma redraw_fill_skipped:
  assumes "allocated h m" and "fillOpacity (styles h (style m)) = 0"
    and "opt_fillOpacity sty = Some 0" and "redraw h m shs sty = (r, h1)"
  shows "geometries h1 (geometry (fillMesh m)) = geometries h (geometry (fillMesh m))"
  using assms
  by (auto simp: redraw_def Let_def allocated_def computeStrokeGeometry_def
      new_geometry_def dispose_geometry_def split: if_splits)


lemma redraw_stroke_rebuilt:
  assumes "allocated h m"
    and "\<not> (strokeOpacity (styles h (style m)) = 0 \<and> opt_strokeOpacity sty = Some 0)"
    and "redraw h m shs sty = (Inr m1, h1)"
  shows "disposed (geometries h1 (geometry (strokeMesh m))) \<and>
     geometry (strokeMesh m1) = next_geometry h \<and>
     geometries h1 (next_geometry h) = \<lparr>source = shs, builds = 1, disposed = False\<rparr>"
  using assms
  by (auto simp: redraw_def Let_def allocated_def updateFillGeometry_def computeStrokeGeometry_def
      new_geometry_def dispose_geometry_def split: if_splits)

lemma redraw_no_shapes:
  assumes "\<not> (strokeOpacity (styles h (style m)) = 0 \<and> opt_strokeOpacity sty = Some 0)"
  shows "fst (redraw h m [] sty) = Inl (TypeError, m\<lparr>shapes := []\<rparr>) \<and>
     disposed (geometries (snd (redraw h m [] sty)) (geometry (strokeMesh m)))"
  using assms
  by (auto simp: redraw_def Let_def updateFillGeometry_def computeStrokeGeometry_def
      dispose_geometry_def)

lemma restyle_result:
  "restyle h m sty =
     (Inr (updateStrokeMaterial (snd (restyle h m sty)) (updateFillMaterial (snd (restyle h m sty)) m)),
      h\<lparr>styles := (styles h)(style m := assign_fields (styles h (style m)) sty)\<rparr>)"
  by (simp add: restyle_def Object_assign_def)

lemma restyle_frame:
  "restyle h m sty = (r, h') \<Longrightarrow>
     geometries h' = geometries h \<and> next_geometry h' = next_geometry h \<and>
     styles h' = (styles h)(style m := assign_fields (styles h (style m)) sty) \<and>
     (\<exists>m'. r = Inr m' \<and> style m' = style m \<and> shapes m' = shapes m \<and>
        geometry (fillMesh m') = geometry (fillMesh m) \<and>
        geometry (strokeMesh m') = geometry (strokeMesh m))"
  by (auto simp: restyle_def Object_assign_def updateStrokeMaterial_def updateFillMaterial_def Let_def)

lemma update_redraw_cases:
  assumes "points \<noteq> []" and "length points mod 4 = 0"
  obtains shs h1 m1 m' h' where
    "computeShapes U points = Inr shs" "redraw h m shs sty = (Inr m1, h1)"
    "restyle h1 m1 sty = (Inr m', h')" "update U h m points sty True = (Inr m', h')"
proof -
  from computeShapes_nonempty [OF assms] obtain shs where
    c: "computeShapes U points = Inr shs" and ne: "shs \<noteq> []" by blast
  from redraw_returns [OF ne] obtain m1 h1 where r: "redraw h m shs sty = (Inr m1, h1)" by blast
  obtain r' h' where s: "restyle h1 m1 sty = (r', h')" by (cases "restyle h1 m1 sty")
  from restyle_frame [OF s] obtain m' where "r' = Inr m'" by blast
  with c r s that show ?thesis by (simp add: update_def)
qed

lemma update_no_shapes:
  assumes "\<not> (strokeOpacity (styles h (style m)) = 0 \<and> opt_strokeOpacity sty = Some 0)"
  shows "fst (update U h m [] sty True) = Inl (TypeError, m\<lparr>shapes := []\<rparr>) \<and>
     disposed (geometries (snd (update U h m [] sty True)) (geometry (strokeMesh m)))"
proof -
  have c: "computeShapes U [] = Inr []"
    by (simp add: computeShapes_def buildPaths_empty classify_def)
  obtain r h1 where r: "redraw h m [] sty = (r, h1)" by (cases "redraw h m [] sty")
  with redraw_no_shapes [OF assms] have "r = Inl (TypeError, m\<lparr>shapes := []\<rparr>)"
    and "disposed (geometries h1 (geometry (strokeMesh m)))" by simp_all
  with c r show ?thesis by (simp add: update_def)
qed

lemma Mobject_style:
  "Mobject U h ident points sty = (Inr m, h') \<Longrightarrow> style m = DEFAULT_STYLE"
  by (auto simp: Mobject_def Object_assign_def computeFillGeometry_def computeStrokeGeometry_def
      new_geometry_def split: sum.splits)

lemma update_styles:
  assumes "update U h m points sty needsRedraw = (Inr m', h')"
  shows "style m' = style m \<and>
         styles h' = (styles h)(style m := assign_fields (styles h (style m)) sty)"
proof (cases needsRedraw)
  case False
  with assms restyle_frame [of h m sty "Inr m'" h'] show ?thesis by (simp add: update_def)
next
  case True
  with assms obtain shs where c: "computeShapes U points = Inr shs"
    by (auto simp: update_def split: sum.splits)
  obtain r h1 where r: "redraw h m shs sty = (r, h1)" by (cases "redraw h m shs sty")
  with assms True c obtain m1 where m1: "r = Inr m1" and s: "restyle h1 m1 sty = (Inr m', h')"
    by (cases r) (auto simp: update_def)
  from redraw_frame [OF r] m1 restyle_frame [OF s] show ?thesis
    by (auto simp: entity_after_def)
qed

lemma Mobject_value:
  assumes "computeShapes U points = Inr shs" and "shs \<noteq> []"
  shows "Mobject U h ident points sty =
     (Inr \<lparr>mobjectId = ident, style = DEFAULT_STYLE, shapes = shs,
           fillMesh = \<lparr>geometry = next_geometry h,
                        material = computeFillMaterial (assign_fields (styles h DEFAULT_STYLE) sty)\<rparr>,
           strokeMesh = \<lparr>geometry = Suc (next_geometry h),
                          material = computeStrokeMaterial (assign_fields (styles h DEFAULT_STYLE) sty)\<rparr>\<rparr>,
      h\<lparr>styles := (styles h)(DEFAULT_STYLE := assign_fields (styles h DEFAULT_STYLE) sty),
        geometries := (geometries h)
          (next_geometry h := \<lparr>source = shs, builds = 1, disposed = False\<rparr>,
           Suc (next_geometry h) := \<lparr>source = shs, builds = 1, disposed = False\<rparr>),
        next_geometry := Suc (Suc (next_geometry h))\<rparr>)"
  using assms
  by (simp add: Mobject_def Object_assign_def computeFillGeometry_def computeStrokeGeometry_def
      new_geometry_def)

lemma triangle_length: "length (polygon_points outer_triangle) mod 4 = 0"
  by (simp add: polygon_points_def outer_triangle_def)

lemma triangle_points: "polygon_points outer_triangle \<noteq> []"
  by (simp add: polygon_points_def outer_triangle_def)

lemma first_entity_value:
  "\<exists>shs. first_entity sty =
     (Inr \<lparr>mobjectId = 1, style = DEFAULT_STYLE, shapes = shs,
           fillMesh = \<lparr>geometry = 0,
                        material = computeFillMaterial (assign_fields original_defaults sty)\<rparr>,
           strokeMesh = \<lparr>geometry = 1,
                          material = computeStrokeMaterial (assign_fields original_defaults sty)\<rparr>\<rparr>,
      \<lparr>styles = (\<lambda>r. original_defaults)(DEFAULT_STYLE := assign_fields original_defaults sty),
        geometries = (\<lambda>r. \<lparr>source = [], builds = 0, disposed = False\<rparr>)
          (0 := \<lparr>source = shs, builds = 1, disposed = False\<rparr>,
           1 := \<lparr>source = shs, builds = 1, disposed = False\<rparr>),
        next_geometry = 2\<rparr>)"
proof -
  from computeShapes_nonempty [OF triangle_points triangle_length] obtain shs where
    "computeShapes spec_externals (polygon_points outer_triangle) = Inr shs" "shs \<noteq> []" by blast
  from Mobject_value [OF this, of module_loaded 1 sty] show ?thesis
    by (auto simp: first_entity_def module_loaded_def)
qed

lemma first_entity_facts:
  "fst (first_entity sty) = Inr (built (first_entity sty)) \<and>
   allocated (snd (first_entity sty)) (built (first_entity sty)) \<and>
   style (built (first_entity sty)) = DEFAULT_STYLE \<and>
   styles (snd (first_entity sty)) DEFAULT_STYLE = assign_fields original_defaults sty"
  using first_entity_value [of sty] by (auto simp: allocated_def built_def)

lemma inner_triangle_length: "length (polygon_points inner_triangle) mod 4 = 0"
  by (simp add: polygon_points_def inner_triangle_def)

lemma second_entity_facts:
  "fst (second_entity sty1 sty2) = Inr (built (second_entity sty1 sty2)) \<and>
   style (built (second_entity sty1 sty2)) = DEFAULT_STYLE \<and>
   styles (snd (second_entity sty1 sty2)) DEFAULT_STYLE =
     assign_fields (assign_fields original_defaults sty1) sty2 \<and>
   material (fillMesh (built (second_entity sty1 sty2))) =
     computeFillMaterial (assign_fields (assign_fields original_defaults sty1) sty2)"
proof -
  have "polygon_points inner_triangle \<noteq> []"
    by (simp add: polygon_points_def inner_triangle_def)
  from computeShapes_nonempty [OF this inner_triangle_length] obtain shs where
    "computeShapes spec_externals (polygon_points inner_triangle) = Inr shs" "shs \<noteq> []" by blast
  from Mobject_value [OF this, of "snd (first_entity sty1)" 2 sty2]
    first_entity_facts [of sty1]
  show ?thesis by (simp add: second_entity_def built_def)
qed

lemma update_style_only:
  "fst (update U h m points sty False) = Inr (projr (fst (update U h m points sty False)))"
  by (simp add: update_def restyle_def Object_assign_def)

subsection \<open>Style-only update\<close>

text \<open>
  Claim C6. For every entity, \<open>update(points, style, needsRedraw = false)\<close> returns
  normally and recomputes no geometry: the store of geometry buffers is the same as
  before, both meshes keep their geometry reference, and the shapes are kept. The entity
  changes only in the colour and opacity of the fill material and in the colour, opacity
  and line width (stroke width over the shrink factor) of the stroke material, all read
  from the style object after the fields of the argument were assigned into it.
\<close>

theorem update_without_redraw:
  "(let s = assign_fields (styles h (style m)) sty;
        m' = m\<lparr>fillMesh := (fillMesh m)\<lparr>material := (material (fillMesh m))
                  \<lparr>color := fillColor s, opacity := fillOpacity s\<rparr>\<rparr>,
               strokeMesh := (strokeMesh m)\<lparr>material := (material (strokeMesh m))
                  \<lparr>color := strokeColor s, opacity := strokeOpacity s,
                   lineWidth := strokeWidth s / STROKE_SHRINK_FACTOR\<rparr>\<rparr>\<rparr>;
        h' = h\<lparr>styles := (styles h)(style m := s)\<rparr>
    in update U h m points sty False = (Inr m', h') \<and>
       geometries h' = geometries h \<and> next_geometry h' = next_geometry h \<and>
       geometry (fillMesh m') = geometry (fillMesh m) \<and>
       geometry (strokeMesh m') = geometry (strokeMesh m) \<and>
       shapes m' = shapes m)"
  by (simp add: update_def restyle_def Object_assign_def updateStrokeMaterial_def
      updateFillMaterial_def Let_def)

subsection \<open>Redraw with an invisible fill\<close>

text \<open>
  Claim C5, for point sequences that give at least one shape. For every entity, when
  \<open>this.style.fillOpacity\<close> is exactly 0 at the call and the \<open>fillOpacity\<close> of the
  style passed in is exactly 0, \<open>update(points, style, needsRedraw = true)\<close> leaves the
  fill geometry untouched: the fill mesh keeps its buffer and the buffer keeps its
  content, for every point sequence and also when the call throws. For a non-empty point
  sequence whose length is a multiple of 4 the call returns, and when the stroke opacity
  of the entity's style or the one passed in is not exactly 0, the old stroke buffer is
  disposed and the stroke mesh gets a new buffer, computed from the new shapes.
\<close>

theorem update_skips_invisible_fill:
  assumes "allocated h m"
    and "fillOpacity (styles h (style m)) = 0" and "opt_fillOpacity sty = Some 0"
  shows "geometry (fillMesh (entity_after (fst (update U h m points sty True)))) =
           geometry (fillMesh m) \<and>
    geometries (snd (update U h m points sty True)) (geometry (fillMesh m)) =
           geometries h (geometry (fillMesh m)) \<and>
    (points \<noteq> [] \<and> length points mod 4 = 0 \<longrightarrow>
      (\<exists>m' h' shs. update U h m points sty True = (Inr m', h') \<and>
        computeShapes U points = Inr shs \<and>
        geometry (fillMesh m') = geometry (fillMesh m) \<and>
        (strokeOpacity (styles h (style m)) \<noteq> 0 \<or> opt_strokeOpacity sty \<noteq> Some 0 \<longrightarrow>
           disposed (geometries h' (geometry (strokeMesh m))) \<and>
           geometry (strokeMesh m') = next_geometry h \<and>
           geometry (strokeMesh m') \<noteq> geometry (strokeMesh m) \<and>
           geometries h' (geometry (strokeMesh m')) =
             \<lparr>source = shs, builds = 1, disposed = False\<rparr>)))"
proof (intro conjI impI)
  have "geometry (fillMesh (entity_after (fst (update U h m points sty True)))) =
          geometry (fillMesh m) \<and>
        geometries (snd (update U h m points sty True)) (geometry (fillMesh m)) =
          geometries h (geometry (fillMesh m))"
  proof (cases "computeShapes U points")
    case (Inl e)
    then show ?thesis by (simp add: update_def entity_after_def)
  next
    case (Inr shs)
    obtain r h1 where r: "redraw h m shs sty = (r, h1)" by (cases "redraw h m shs sty")
    note rf = redraw_frame [OF r] and rs = redraw_fill_skipped [OF assms r]
    show ?thesis
    proof (cases r)
      case (Inl em)
      with Inr r have "update U h m points sty True = (r, h1)" by (simp add: update_def)
      with rf rs show ?thesis by simp
    next
      case m1: (Inr m1)
      obtain r' h' where s: "restyle h1 m1 sty = (r', h')" by (cases "restyle h1 m1 sty")
      from restyle_frame [OF s] obtain m' where m': "r' = Inr m'"
        and g: "geometry (fillMesh m') = geometry (fillMesh m1)"
        and k: "geometries h' = geometries h1" by blast
      from Inr r m1 s m' have "update U h m points sty True = (Inr m', h')"
        by (simp add: update_def)
      with rf rs m1 g k show ?thesis by (simp add: entity_after_def)
    qed
  qed
  then show "geometry (fillMesh (entity_after (fst (update U h m points sty True)))) =
          geometry (fillMesh m)"
    and "geometries (snd (update U h m points sty True)) (geometry (fillMesh m)) =
          geometries h (geometry (fillMesh m))"
    by simp_all
next
  assume "points \<noteq> [] \<and> length points mod 4 = 0"
  then have "points \<noteq> []" and "length points mod 4 = 0" by simp_all
  then obtain shs h1 m1 m' h' where
    c: "computeShapes U points = Inr shs" and r: "redraw h m shs sty = (Inr m1, h1)" and
    s: "restyle h1 m1 sty = (Inr m', h')" and u: "update U h m points sty True = (Inr m', h')"
    by (rule update_redraw_cases)
  note rf = redraw_frame [OF r, unfolded entity_after_def, simplified] and sf = restyle_frame [OF s]
  from rf sf have f: "geometry (fillMesh m') = geometry (fillMesh m)" by auto
  have st: "disposed (geometries h' (geometry (strokeMesh m))) \<and>
         geometry (strokeMesh m') = next_geometry h \<and>
         geometry (strokeMesh m') \<noteq> geometry (strokeMesh m) \<and>
         geometries h' (geometry (strokeMesh m')) = \<lparr>source = shs, builds = 1, disposed = False\<rparr>"
    if "strokeOpacity (styles h (style m)) \<noteq> 0 \<or> opt_strokeOpacity sty \<noteq> Some 0"
  proof -
    from that
    have "\<not> (strokeOpacity (styles h (style m)) = 0 \<and> opt_strokeOpacity sty = Some 0)" by blast
    from redraw_stroke_rebuilt [OF assms(1) this r] sf assms(1) show ?thesis
      by (auto simp: allocated_def)
  qed
  from u c f st
  show "\<exists>m' h' shs. update U h m points sty True = (Inr m', h') \<and>
        computeShapes U points = Inr shs \<and>
        geometry (fillMesh m') = geometry (fillMesh m) \<and>
        (strokeOpacity (styles h (style m)) \<noteq> 0 \<or> opt_strokeOpacity sty \<noteq> Some 0 \<longrightarrow>
           disposed (geometries h' (geometry (strokeMesh m))) \<and>
           geometry (strokeMesh m') = next_geometry h \<and>
           geometry (strokeMesh m') \<noteq> geometry (strokeMesh m) \<and>
           geometries h' (geometry (strokeMesh m')) =
             \<lparr>source = shs, builds = 1, disposed = False\<rparr>)"
    by blast
qed

text \<open>
  An entity constructed from a triangle with \<open>{fillOpacity: 0}\<close>, updated with the same
  triangle and the same style: the stroke opacity is the default 1.
\<close>

theorem update_skips_invisible_fill_witness:
  "allocated (snd (first_entity hidden_fill)) (built (first_entity hidden_fill)) \<and>
   polygon_points outer_triangle \<noteq> [] \<and>
   length (polygon_points outer_triangle) mod 4 = 0 \<and>
   fillOpacity (styles (snd (first_entity hidden_fill))
     (style (built (first_entity hidden_fill)))) = 0 \<and>
   opt_fillOpacity hidden_fill = Some 0 \<and>
   strokeOpacity (styles (snd (first_entity hidden_fill))
     (style (built (first_entity hidden_fill)))) \<noteq> 0 \<and>
   (\<exists>m' h' shs. update spec_externals (snd (first_entity hidden_fill))
        (built (first_entity hidden_fill)) (polygon_points outer_triangle) hidden_fill True =
        (Inr m', h') \<and>
      geometry (fillMesh m') = geometry (fillMesh (built (first_entity hidden_fill))) \<and>
      geometries h' (geometry (fillMesh (built (first_entity hidden_fill)))) =
        geometries (snd (first_entity hidden_fill))
          (geometry (fillMesh (built (first_entity hidden_fill)))) \<and>
      disposed (geometries h' (geometry (strokeMesh (built (first_entity hidden_fill))))) \<and>
      geometries h' (geometry (strokeMesh m')) = \<lparr>source = shs, builds = 1, disposed = False\<rparr>)"
proof -
  let ?H = "snd (first_entity hidden_fill)" and ?M = "built (first_entity hidden_fill)"
  note f = first_entity_facts [of hidden_fill]
  from f have a: "allocated ?H ?M" by blast
  from f have fo: "fillOpacity (styles ?H (style ?M)) = 0"
    by (simp add: assign_fields_def hidden_fill_def no_style_def)
  have arg: "opt_fillOpacity hidden_fill = Some 0" by (simp add: hidden_fill_def)
  from f have so: "strokeOpacity (styles ?H (style ?M)) \<noteq> 0"
    by (simp add: assign_fields_def hidden_fill_def no_style_def original_defaults_def)
  note t = update_skips_invisible_fill [OF a fo arg, of spec_externals "polygon_points outer_triangle"]
  from t triangle_points triangle_length so obtain m' h' shs where
    u: "update spec_externals ?H ?M (polygon_points outer_triangle) hidden_fill True = (Inr m', h')"
    and g: "geometry (fillMesh m') = geometry (fillMesh ?M)"
    and d: "disposed (geometries h' (geometry (strokeMesh ?M)))"
    and n: "geometries h' (geometry (strokeMesh m')) = \<lparr>source = shs, builds = 1, disposed = False\<rparr>"
    by blast
  from t u have k: "geometries h' (geometry (fillMesh ?M)) = geometries ?H (geometry (fillMesh ?M))"
    by simp
  from u g k d n
  have "\<exists>m' h' shs. update spec_externals ?H ?M (polygon_points outer_triangle) hidden_fill True =
        (Inr m', h') \<and>
      geometry (fillMesh m') = geometry (fillMesh ?M) \<and>
      geometries h' (geometry (fillMesh ?M)) = geometries ?H (geometry (fillMesh ?M)) \<and>
      disposed (geometries h' (geometry (strokeMesh ?M))) \<and>
      geometries h' (geometry (strokeMesh m')) = \<lparr>source = shs, builds = 1, disposed = False\<rparr>"
    by blast
  with a triangle_points triangle_length fo arg so show ?thesis by blast
qed

text \<open>
  The same entity updated with the empty point sequence: there are no shapes, the old
  stroke buffer is disposed, \<open>computeStrokeGeometry\<close> throws, and the stroke mesh is left
  with the disposed buffer.
\<close>

theorem update_skips_invisible_fill_counterexample:
  "fillOpacity (styles (snd (first_entity hidden_fill))
     (style (built (first_entity hidden_fill)))) = 0 \<and>
   opt_fillOpacity hidden_fill = Some 0 \<and>
   strokeOpacity (styles (snd (first_entity hidden_fill))
     (style (built (first_entity hidden_fill)))) \<noteq> 0 \<and>
   fst (update spec_externals (snd (first_entity hidden_fill))
          (built (first_entity hidden_fill)) [] hidden_fill True) =
     Inl (TypeError, (built (first_entity hidden_fill))\<lparr>shapes := []\<rparr>) \<and>
   geometry (strokeMesh (entity_after (fst (update spec_externals (snd (first_entity hidden_fill))
          (built (first_entity hidden_fill)) [] hidden_fill True)))) =
     geometry (strokeMesh (built (first_entity hidden_fill))) \<and>
   disposed (geometries (snd (update spec_externals (snd (first_entity hidden_fill))
          (built (first_entity hidden_fill)) [] hidden_fill True))
     (geometry (strokeMesh (built (first_entity hidden_fill)))))"
proof -
  let ?H = "snd (first_entity hidden_fill)" and ?M = "built (first_entity hidden_fill)"
  note f = first_entity_facts [of hidden_fill]
  from f have fo: "fillOpacity (styles ?H (style ?M)) = 0"
    by (simp add: assign_fields_def hidden_fill_def no_style_def)
  have arg: "opt_fillOpacity hidden_fill = Some 0" by (simp add: hidden_fill_def)
  from f have so: "strokeOpacity (styles ?H (style ?M)) \<noteq> 0"
    by (simp add: assign_fields_def hidden_fill_def no_style_def original_defaults_def)
  then have "\<not> (strokeOpacity (styles ?H (style ?M)) = 0 \<and> opt_strokeOpacity hidden_fill = Some 0)"
    by simp
  from update_no_shapes [OF this, of spec_externals] fo arg so show ?thesis
    by (simp add: entity_after_def)
qed

subsection \<open>The skip reads the style argument\<close>




subsection \<open>The shared style object\<close>

text \<open>
  Claim C4. The \<open>style\<close> field of every constructed entity is the reference of the
  module-level \<open>DEFAULT_STYLE\<close> object, and \<open>update\<close> keeps it. So any two entities hold
  the same style object: after an update of one entity, the object the other entity
  holds has the fields of that update's argument assigned, and the other entity's next
  material refresh gives its materials those values.
\<close>

theorem style_object_shared:
  assumes "Mobject U ha id1 points1 sty1 = (Inr m1, ha')"
    and "Mobject U hb id2 points2 sty2 = (Inr m2, hb')"
    and "update U h m1 points sty needsRedraw = (Inr m1', h')"
  shows "style m1 = DEFAULT_STYLE \<and> style m2 = DEFAULT_STYLE \<and> style m1' = DEFAULT_STYLE \<and>
         styles h' (style m2) = assign_fields (styles h (style m2)) sty \<and>
         material (fillMesh (updateFillMaterial h' m2)) =
           (material (fillMesh m2))
             \<lparr>color := fillColor (assign_fields (styles h (style m2)) sty),
              opacity := fillOpacity (assign_fields (styles h (style m2)) sty)\<rparr> \<and>
         material (strokeMesh (updateStrokeMaterial h' m2)) =
           (material (strokeMesh m2))
             \<lparr>color := strokeColor (assign_fields (styles h (style m2)) sty),
              opacity := strokeOpacity (assign_fields (styles h (style m2)) sty),
              lineWidth := strokeWidth (assign_fields (styles h (style m2)) sty) / STROKE_SHRINK_FACTOR\<rparr>"
  using Mobject_style [OF assms(1)] Mobject_style [OF assms(2)] update_styles [OF assms(3)]
  by (simp add: updateFillMaterial_def updateStrokeMaterial_def Let_def)

theorem style_object_shared_witness:
  "first_entity no_style = (Inr (built (first_entity no_style)), snd (first_entity no_style)) \<and>
   second_entity no_style no_style =
     (Inr (built (second_entity no_style no_style)), snd (second_entity no_style no_style)) \<and>
   update spec_externals (snd (second_entity no_style no_style)) (built (first_entity no_style))
       (polygon_points outer_triangle) invisible False =
     (Inr (built (update spec_externals (snd (second_entity no_style no_style))
             (built (first_entity no_style)) (polygon_points outer_triangle) invisible False)),
      snd (update spec_externals (snd (second_entity no_style no_style))
             (built (first_entity no_style)) (polygon_points outer_triangle) invisible False)) \<and>
   style (built (first_entity no_style)) = style (built (second_entity no_style no_style)) \<and>
   opacity (material (fillMesh (built (second_entity no_style no_style)))) = 1 \<and>
   opacity (material (fillMesh (updateFillMaterial
       (snd (update spec_externals (snd (second_entity no_style no_style))
             (built (first_entity no_style)) (polygon_points outer_triangle) invisible False))
       (built (second_entity no_style no_style))))) = 0"
proof -
  let ?A = "first_entity no_style" and ?B = "second_entity no_style no_style"
  let ?R = "update spec_externals (snd ?B) (built ?A) (polygon_points outer_triangle) invisible False"
  note fa = first_entity_facts [of no_style] and fb = second_entity_facts [of no_style no_style]
  from fa have a: "?A = (Inr (built ?A), snd ?A)" by (simp add: prod_eq_iff)
  from fb have b: "?B = (Inr (built ?B), snd ?B)" by (simp add: prod_eq_iff)
  from a have a': "Mobject spec_externals module_loaded 1 (polygon_points outer_triangle) no_style =
      (Inr (built ?A), snd ?A)" by (simp add: first_entity_def)
  from b have b': "Mobject spec_externals (snd ?A) 2 (polygon_points inner_triangle) no_style =
      (Inr (built ?B), snd ?B)" by (simp add: second_entity_def)
  from update_style_only [of spec_externals "snd ?B" "built ?A" "polygon_points outer_triangle" invisible]
  have u: "?R = (Inr (built ?R), snd ?R)" by (simp add: prod_eq_iff built_def)
  from fb have before: "opacity (material (fillMesh (built ?B))) = 1"
    by (simp add: computeFillMaterial_def assign_fields_def no_style_def original_defaults_def)
  from style_object_shared [OF a' b' u] fb
  have "style (built ?A) = style (built ?B)"
    and "opacity (material (fillMesh (updateFillMaterial (snd ?R) (built ?B)))) = 0"
    by (simp_all add: assign_fields_def invisible_def no_style_def)
  with a b u before show ?thesis by blast
qed

text \<open>
  Claim C3 says that every construction yields the original defaults overridden by the
  supplied fields only, whatever was constructed before. Here a first entity is
  constructed with \<open>{fillOpacity: 0}\<close> and a second one with \<open>{}\<close>: the second entity's
  style has \<open>fillOpacity\<close> 0 and its fill material has opacity 0, where the original
  default is 1, because the constructor assigned the first style into \<open>DEFAULT_STYLE\<close>.
\<close>

theorem second_entity_inherits_style:
  "fst (second_entity hidden_fill no_style) = Inr (built (second_entity hidden_fill no_style)) \<and>
   style (built (second_entity hidden_fill no_style)) = DEFAULT_STYLE \<and>
   fillOpacity (styles (snd (second_entity hidden_fill no_style))
     (style (built (second_entity hidden_fill no_style)))) = 0 \<and>
   opacity (material (fillMesh (built (second_entity hidden_fill no_style)))) = 0 \<and>
   fillOpacity (assign_fields original_defaults no_style) = 1"
  using second_entity_facts [of hidden_fill no_style]
  by (simp add: assign_fields_def hidden_fill_def no_style_def original_defaults_def
      computeFillMaterial_def)

end
